theory Spec2Isabelle
  imports Complex_Main "HOL-Library.Sublist" "HOL-Library.Multiset"
    "HOL-Library.Product_Lexorder" "HOL-Library.Log_Nat"
begin

section \<open>Python strings\<close>

text \<open>
  A Python \<open>str\<close> is modelled as a \<^typ>\<open>string\<close>. The model is exact for ASCII text; the one
  non-ASCII character the source names, the rupee sign of the budget patterns, stands as its
  three UTF-8 bytes. Other non-ASCII characters pass through every operation unchanged.
\<close>

definition lower_char :: "char \<Rightarrow> char" where
  "lower_char c =
     (case map_of (zip ''ABCDEFGHIJKLMNOPQRSTUVWXYZ'' ''abcdefghijklmnopqrstuvwxyz'') c of
        Some d \<Rightarrow> d
      | None \<Rightarrow> c)"

text \<open>\<open>s.lower()\<close>\<close>

definition lower :: "string \<Rightarrow> string" where
  "lower s = map lower_char s"

text \<open>
  The characters that \<open>str.strip()\<close>, \<open>str.split()\<close> and the pattern \<open>\s\<close> treat as white
  space: tab, line feed, vertical tab, form feed, carriage return, the four separators
  \<open>0x1C\<close> to \<open>0x1F\<close>, and the blank.
\<close>

definition isspace :: "char \<Rightarrow> bool" where
  "isspace c = (c \<in> set [CHR 0x09, CHR 0x0A, CHR 0x0B, CHR 0x0C, CHR 0x0D,
                           CHR 0x1C, CHR 0x1D, CHR 0x1E, CHR 0x1F, CHR '' ''])"

text \<open>The pattern \<open>\d\<close>.\<close>

definition isdigit :: "char \<Rightarrow> bool" where
  "isdigit c = (c \<in> set ''0123456789'')"

text \<open>\<open>s.strip()\<close>\<close>

definition strip :: "string \<Rightarrow> string" where
  "strip s = rev (dropWhile isspace (rev (dropWhile isspace s)))"

text \<open>\<open>s.split()\<close>: the maximal runs of characters that are not white space, in order.\<close>

fun split_aux :: "string \<Rightarrow> string \<Rightarrow> string list" where
  "split_aux acc [] = (if acc = [] then [] else [acc])"
| "split_aux acc (c # cs) =
     (if isspace c then (if acc = [] then split_aux [] cs else acc # split_aux [] cs)
      else split_aux (acc @ [c]) cs)"

definition str_split :: "string \<Rightarrow> string list" where
  "str_split s = split_aux [] s"

text \<open>\<open>x in y\<close> on strings: \<open>x\<close> occurs in \<open>y\<close> as a contiguous run.\<close>

fun str_in :: "string \<Rightarrow> string \<Rightarrow> bool" where
  "str_in x [] = (x = [])"
| "str_in x (c # cs) = (prefix x (c # cs) \<or> str_in x cs)"

text \<open>\<open>any(kw in text for kw in kws)\<close>\<close>

definition any_in :: "string list \<Rightarrow> string \<Rightarrow> bool" where
  "any_in kws text = list_ex (\<lambda>kw. str_in kw text) kws"

section \<open>Exceptions\<close>

text \<open>An exception is its class name and its message; \<open>str(e)\<close> is the message.\<close>

datatype exn = PyError (exn_class: string) (exn_str: string)

section \<open>Configuration tables (config.py)\<close>

text \<open>Dictionaries are association lists: the source iterates over them in declaration order.\<close>

definition CATEGORY_KEYWORDS :: "(string \<times> string list) list" where
  "CATEGORY_KEYWORDS =
    [(''apparel'',
       [''shoes'', ''clothes'', ''t-shirt'', ''shirt'', ''pants'', ''trousers'', ''jeans'',
        ''dress'', ''jacket'', ''coat'', ''footwear'', ''sneakers'', ''boots'', ''sandals'',
        ''sweater'', ''hoodie'', ''joggers'', ''shorts'', ''skirt'', ''blouse'']),
     (''mobiles'',
       [''phone'', ''smartphone'', ''mobile'', ''iphone'', ''android'', ''cellphone'',
        ''redmi'', ''samsung'', ''realme'', ''vivo'', ''oppo'', ''oneplus'', ''nokia'',
        ''moto'', ''motorola'', ''poco'', ''nothing'', ''google pixel'']),
     (''electronics'',
       [''laptop'', ''computer'', ''pc'', ''notebook'', ''macbook'', ''thinkpad'',
        ''tv'', ''television'', ''smart tv'', ''led tv'', ''4k tv'',
        ''camera'', ''dslr'', ''mirrorless'', ''headphones'', ''earphones'',
        ''speaker'', ''soundbar'', ''tablet'', ''ipad'', ''monitor'', ''keyboard'',
        ''mouse'', ''printer'', ''scanner'', ''projector'', ''gaming console''])]"

definition BUDGET_KEYWORDS :: "(string \<times> string list) list" where
  "BUDGET_KEYWORDS =
    [(''low'',
       [''cheap'', ''budget'', ''affordable'', ''low cost'', ''economical'', ''inexpensive'',
        ''under budget'', ''low price'', ''economy'', ''basic'', ''entry level'']),
     (''medium'',
       [''mid-range'', ''reasonable'', ''moderate'', ''mid priced'', ''standard'',
        ''average'', ''decent'', ''fair price'', ''competitive'', ''value'']),
     (''high'',
       [''premium'', ''expensive'', ''high-end'', ''luxury'', ''top'', ''best'',
        ''flagship'', ''professional'', ''pro'', ''ultimate'', ''elite''])]"

definition BUDGET_RANGES :: "(string \<times> (string \<times> int) list) list" where
  "BUDGET_RANGES =
    [(''apparel'', [(''low'', 3000), (''medium'', 8000), (''high'', 20000)]),
     (''mobiles'', [(''low'', 15000), (''medium'', 35000), (''high'', 70000)]),
     (''electronics'', [(''low'', 50000), (''medium'', 100000), (''high'', 250000)])]"

definition COLOR_KEYWORDS :: "string list" where
  "COLOR_KEYWORDS =
    [''red'', ''blue'', ''black'', ''white'', ''green'', ''yellow'', ''pink'', ''purple'',
     ''orange'', ''silver'', ''gold'', ''navy'', ''beige'', ''brown'', ''gray'', ''maroon'',
     ''cyan'', ''magenta'', ''violet'', ''indigo'', ''turquoise'', ''khaki'']"

section \<open>The budget patterns (budget\_analyzer.py, \_\_init\_\_)\<close>

text \<open>
  The three regular expressions are read as the deterministic scanners they denote. At a given
  start position each has at most one way to match: the keyword alternatives differ in their
  first two letters, white space, the currency marks and digits are disjoint character
  classes, and everything after the first digit of an amount is optional or is followed by a
  character no shorter amount could be followed by. So the greedy scan below finds the match
  of the backtracking matcher, and the same group text.
\<close>

text \<open>A literal at the start of the text, compared without regard to case (\<open>re.IGNORECASE\<close>);
  the result is the text after it.\<close>

definition lit :: "string \<Rightarrow> string \<Rightarrow> string option" where
  "lit p s = (if lower (take (length p) s) = p then Some (drop (length p) s) else None)"

text \<open>An alternation of literals, \<open>(?:p1|p2|...)\<close>.\<close>

fun first_lit :: "string list \<Rightarrow> string \<Rightarrow> string option" where
  "first_lit [] s = None"
| "first_lit (p # ps) s = (case lit p s of Some r \<Rightarrow> Some r | None \<Rightarrow> first_lit ps s)"

text \<open>\<open>\s+\<close>\<close>

definition spaces1 :: "string \<Rightarrow> string option" where
  "spaces1 s = (case s of [] \<Rightarrow> None
                | c # cs \<Rightarrow> if isspace c then Some (dropWhile isspace cs) else None)"

text \<open>The rupee sign U+20B9, as UTF-8.\<close>

definition rupee :: string where
  "rupee = [CHR 0xE2, CHR 0x82, CHR 0xB9]"

text \<open>The optional currency mark: \<open>rs\<close> with an optional full stop, or the rupee sign.\<close>

definition currency :: "string \<Rightarrow> string" where
  "currency s =
     (case lit ''rs'' s of
        Some r \<Rightarrow> (case lit ''.'' r of Some r' \<Rightarrow> r' | None \<Rightarrow> r)
      | None \<Rightarrow> (case lit rupee s of Some r \<Rightarrow> r | None \<Rightarrow> s))"

text \<open>A keyword alternation, \<open>\s+\<close>, the optional currency mark and \<open>\s*\<close>: the part of each
  pattern in front of an amount.\<close>

definition lead :: "string list \<Rightarrow> string \<Rightarrow> string option" where
  "lead kws s =
     (case first_lit kws s of
        None \<Rightarrow> None
      | Some r \<Rightarrow> (case spaces1 r of
                     None \<Rightarrow> None
                   | Some r' \<Rightarrow> Some (dropWhile isspace (currency r'))))"

text \<open>What \<open>\d*(?:,\d+)*\<close> takes once a first digit has been read: further digits, and a comma
  only when a digit follows it.\<close>

fun amount_tail :: "string \<Rightarrow> string" where
  "amount_tail [] = []"
| "amount_tail (c # cs) =
     (if isdigit c then c # amount_tail cs
      else if c = CHR '','' \<and> (case cs of [] \<Rightarrow> False | d # _ \<Rightarrow> isdigit d)
           then c # amount_tail cs
      else [])"

text \<open>\<open>(\d+(?:,\d+)*)\<close>: the group's text and the text after it.\<close>

definition int_amount :: "string \<Rightarrow> (string \<times> string) option" where
  "int_amount s =
     (case s of
        [] \<Rightarrow> None
      | c # cs \<Rightarrow> if isdigit c
                  then (let t = amount_tail cs in Some (c # t, drop (length t) cs))
                  else None)"

text \<open>The text that \<open>(?:\.\d+)?\<close> takes.\<close>

definition fraction :: "string \<Rightarrow> string" where
  "fraction s =
     (case s of
        c # d # r \<Rightarrow> if c = CHR ''.'' \<and> isdigit d then c # d # takeWhile isdigit r else []
      | _ \<Rightarrow> [])"

text \<open>\<open>(\d+(?:,\d+)*(?:\.\d+)?)\<close>: the group's text.\<close>

definition dec_amount :: "string \<Rightarrow> string option" where
  "dec_amount s =
     (case int_amount s of None \<Rightarrow> None | Some (a, r) \<Rightarrow> Some (a @ fraction r))"

text \<open>The first pattern, tried at the start of the text; the result is \<open>group(1)\<close>.\<close>

definition match_under :: "string \<Rightarrow> string option" where
  "match_under s =
     (case lead [''under'', ''below'', ''less than'', ''upto''] s of
        None \<Rightarrow> None
      | Some r \<Rightarrow> dec_amount r)"

text \<open>The second pattern; the result is \<open>group(1)\<close>.\<close>

definition match_around :: "string \<Rightarrow> string option" where
  "match_around s =
     (case lead [''around'', ''about''] s of
        None \<Rightarrow> None
      | Some r \<Rightarrow> dec_amount r)"

text \<open>The third pattern; the result is \<open>group(2)\<close>, the upper amount.\<close>

definition match_range :: "string \<Rightarrow> string option" where
  "match_range s =
     (case lead [''between''] s of
        None \<Rightarrow> None
      | Some r \<Rightarrow>
          (case int_amount r of
             None \<Rightarrow> None
           | Some (a, r1) \<Rightarrow>
               (case spaces1 r1 of
                  None \<Rightarrow> None
                | Some r2 \<Rightarrow>
                    (case lead [''and''] r2 of
                       None \<Rightarrow> None
                     | Some r3 \<Rightarrow>
                         (case int_amount r3 of
                            None \<Rightarrow> None
                          | Some (b, r4) \<Rightarrow> Some b)))))"

text \<open>\<open>pattern.search(text)\<close>: the match at the leftmost position that has one.\<close>

fun re_search :: "(string \<Rightarrow> string option) \<Rightarrow> string \<Rightarrow> string option" where
  "re_search m [] = m []"
| "re_search m (c # cs) =
     (case m (c # cs) of Some g \<Rightarrow> Some g | None \<Rightarrow> re_search m cs)"

section \<open>Floating point: \<open>float(price_str)\<close>, \<open>price *= 1000\<close>, \<open>int(price)\<close>\<close>

text \<open>
  A non-negative double is a rational, or infinity. \<open>float_round\<close> is IEEE 754 rounding to the
  nearest double, ties to even, with gradual underflow and overflow to infinity.
\<close>

datatype pyfloat = Finite rat | Infinity

definition floor_log2 :: "rat \<Rightarrow> int" where
  "floor_log2 v =
     (let (p, q) = quotient_of v; d = bitlen p - bitlen q
      in if 2 powi d \<le> v then d else d - 1)"

definition round_half_even :: "rat \<Rightarrow> int" where
  "round_half_even x =
     (let f = \<lfloor>x\<rfloor>; d = x - of_int f
      in if d < 1 / 2 then f else if 1 / 2 < d then f + 1 else if even f then f else f + 1)"

definition float_round :: "rat \<Rightarrow> pyfloat" where
  "float_round v =
     (if v = 0 then Finite 0
      else let e = max (floor_log2 v) (- 1022);
               ulp = 2 powi (e - 52);
               r = of_int (round_half_even (v / ulp)) * ulp
           in if 2 ^ 1024 \<le> r then Infinity else Finite r)"

definition digit_val :: "char \<Rightarrow> int" where
  "digit_val c =
     (case map_of (zip ''0123456789'' [0, 1, 2, 3, 4, 5, 6, 7, 8, 9]) c of
        Some n \<Rightarrow> n
      | None \<Rightarrow> 0)"

definition dec_int :: "string \<Rightarrow> int" where
  "dec_int s = foldl (\<lambda>n c. 10 * n + digit_val c) 0 s"

text \<open>The number that a text \<open>digits\<close> or \<open>digits.digits\<close> denotes.\<close>

definition decimal_value :: "string \<Rightarrow> rat" where
  "decimal_value s =
     (let ip = takeWhile (\<lambda>c. c \<noteq> CHR ''.'') s; fp = drop (length ip + 1) s
      in of_int (dec_int (ip @ fp)) / 10 ^ length fp)"

text \<open>\<open>float(s)\<close> on such a text: it never raises \<open>ValueError\<close> there.\<close>

definition py_float :: "string \<Rightarrow> pyfloat" where
  "py_float s = float_round (decimal_value s)"

text \<open>\<open>int(x)\<close> on a non-negative float: the floor, or \<open>OverflowError\<close> on infinity.\<close>

definition py_int :: "pyfloat \<Rightarrow> exn + int" where
  "py_int x =
     (case x of
        Finite r \<Rightarrow> Inr \<lfloor>r\<rfloor>
      | Infinity \<Rightarrow> Inl (PyError ''OverflowError'' ''cannot convert float infinity to integer''))"

section \<open>BudgetAnalyzer (budget\_analyzer.py)\<close>

text \<open>\<open>if 'k' in query.lower() and price < 100: price *= 1000\<close>\<close>

definition scale_k :: "string \<Rightarrow> pyfloat \<Rightarrow> pyfloat" where
  "scale_k query x =
     (case x of
        Finite r \<Rightarrow> if str_in ''k'' (lower query) \<and> r < 100 then float_round (r * 1000)
                    else Finite r
      | Infinity \<Rightarrow> Infinity)"

text \<open>The body of the \<open>try\<close> for a matched group: commas removed, converted, scaled, truncated.
  \<open>OverflowError\<close> is not among the exceptions the source catches there, so it leaves the
  function.\<close>

definition price_of :: "string \<Rightarrow> string \<Rightarrow> exn + int option" where
  "price_of query g =
     (case py_int (scale_k query (py_float (filter (\<lambda>c. c \<noteq> CHR '','') g))) of
        Inl e \<Rightarrow> Inl e
      | Inr n \<Rightarrow> Inr (Some n))"

definition budget_keywords :: "string list" where
  "budget_keywords =
     [''under'', ''below'', ''less than'', ''upto'', ''around'', ''about'', ''between'',
      ''max'', ''maximum'']"

definition extract_price :: "string \<Rightarrow> exn + int option" where
  "extract_price query =
     (if \<not> any_in budget_keywords (lower query) then Inr None
      else case re_search match_under query of
             Some g \<Rightarrow> price_of query g
           | None \<Rightarrow>
               (case re_search match_around query of
                  Some g \<Rightarrow> price_of query g
                | None \<Rightarrow>
                    (case re_search match_range query of
                       Some g \<Rightarrow> price_of query g
                     | None \<Rightarrow> Inr None)))"

text \<open>Python's truth value of an \<open>Optional[int]\<close>: \<open>None\<close> and \<open>0\<close> are false.\<close>

definition truthy_int :: "int option \<Rightarrow> bool" where
  "truthy_int x = (case x of None \<Rightarrow> False | Some n \<Rightarrow> n \<noteq> 0)"

text \<open>Python's truth value of an \<open>Optional[str]\<close>: \<open>None\<close> and the empty string are false.\<close>

definition truthy_str :: "string option \<Rightarrow> bool" where
  "truthy_str x = (case x of None \<Rightarrow> False | Some s \<Rightarrow> s \<noteq> [])"

definition detect_category :: "string \<Rightarrow> string option" where
  "detect_category query =
     (if any_in [''non-apple'', ''not apple'', ''excluding apple''] query
         \<and> any_in [''laptop'', ''computer'', ''macbook''] query
      then Some ''electronics''
      else map_option fst (find (\<lambda>(category, keywords). any_in keywords query) CATEGORY_KEYWORDS))"

definition detect_budget_type :: "string \<Rightarrow> exn + string" where
  "detect_budget_type query =
     (case extract_price query of
        Inl e \<Rightarrow> Inl e
      | Inr p \<Rightarrow>
          Inr (if truthy_int p then ''specific''
               else case find (\<lambda>(budget_key, keywords). any_in keywords query) BUDGET_KEYWORDS of
                      Some (budget_key, keywords) \<Rightarrow> budget_key
                    | None \<Rightarrow> if any_in [''cheap'', ''budget'', ''under''] query then ''low''
                              else ''low''))"

text \<open>\<open>BUDGET_RANGES.get(category, {}).get(budget_type, 50000)\<close>\<close>

definition default_budget :: "string option \<Rightarrow> string \<Rightarrow> int" where
  "default_budget category budget_type =
     (case category of
        None \<Rightarrow> 50000
      | Some c \<Rightarrow>
          (case map_of BUDGET_RANGES c of
             None \<Rightarrow> 50000
           | Some ranges \<Rightarrow> (case map_of ranges budget_type of None \<Rightarrow> 50000 | Some b \<Rightarrow> b)))"

record analysis =
  category :: "string option"
  max_budget :: "int option"
  budget_type :: string
  specific_budget :: "int option"
  original_query :: string

definition analyze_budget :: "string \<Rightarrow> exn + analysis" where
  "analyze_budget query =
     (let query_lower = strip (lower query);
          cat = detect_category query_lower
      in case detect_budget_type query_lower of
           Inl e \<Rightarrow> Inl e
         | Inr bt \<Rightarrow>
             (case extract_price query_lower of
                Inl e \<Rightarrow> Inl e
              | Inr sb \<Rightarrow>
                  Inr \<lparr>category = cat,
                       max_budget = (if truthy_int sb then sb else Some (default_budget cat bt)),
                       budget_type = bt,
                       specific_budget = sb,
                       original_query = query\<rparr>))"

section \<open>MockProductDatabase (mock\_database.py)\<close>

text \<open>A product of the catalog, with the keys of the source's product dictionaries. The
  catalog is a list of complete products; the repository's state is that list.\<close>

record product =
  p_name :: string
  p_price :: int
  p_rating :: rat
  p_image_url :: string
  p_description :: string
  p_buy_link :: string
  p_category :: string
  p_brand :: string
  p_color :: string
  p_platform :: string

text \<open>The value of an optional string argument that is used only where it is true.\<close>

definition str_of :: "string option \<Rightarrow> string" where
  "str_of x = (case x of None \<Rightarrow> [] | Some s \<Rightarrow> s)"

definition int_of :: "int option \<Rightarrow> int" where
  "int_of x = (case x of None \<Rightarrow> 0 | Some n \<Rightarrow> n)"

text \<open>\<open>if c: xs = [p for p in xs if P(p)]\<close>\<close>

definition filter_if :: "bool \<Rightarrow> ('a \<Rightarrow> bool) \<Rightarrow> 'a list \<Rightarrow> 'a list" where
  "filter_if c P xs = (if c then filter P xs else xs)"

text \<open>The test of the free-text filter: some word of the query occurs in one of five fields.\<close>

definition word_match :: "string list \<Rightarrow> product \<Rightarrow> bool" where
  "word_match query_words p =
     list_ex (\<lambda>word. str_in word (lower (p_name p)) \<or>
                     str_in word (lower (p_description p)) \<or>
                     str_in word (lower (p_category p)) \<or>
                     str_in word (lower (p_brand p)) \<or>
                     str_in word (lower (p_color p))) query_words"

text \<open>\<open>xs.sort(key=lambda x: (-x['rating'], x['price']))\<close>: a stable sort on pairs compared
  lexicographically.\<close>

definition sort_catalog :: "product list \<Rightarrow> product list" where
  "sort_catalog xs = sort_key (\<lambda>x. (- p_rating x, p_price x)) xs"

text \<open>
  \<open>search_products\<close> takes the stored list and returns the result with the stored list
  afterwards. Each filter that runs builds a new list; the final sort is in place. When no
  filter runs, the list sorted is the stored list itself.
\<close>

definition search_products ::
  "product list \<Rightarrow> string option \<Rightarrow> string option \<Rightarrow> int option \<Rightarrow> string option \<Rightarrow>
   string option \<Rightarrow> string option \<Rightarrow> product list \<times> product list" where
  "search_products products query cat max_price brand color platform =
     (let f1 = filter_if (truthy_str cat) (\<lambda>p. p_category p = str_of cat) products;
          f2 = filter_if (truthy_int max_price) (\<lambda>p. p_price p \<le> int_of max_price) f1;
          f3 = filter_if (truthy_str brand)
                 (\<lambda>p. str_in (lower (str_of brand)) (lower (p_brand p))) f2;
          f4 = filter_if (truthy_str color)
                 (\<lambda>p. str_in (lower (str_of color)) (lower (p_color p))) f3;
          f5 = filter_if (truthy_str platform)
                 (\<lambda>p. lower (p_platform p) = lower (str_of platform)) f4;
          f6 = filter_if (truthy_str query)
                 (word_match (str_split (lower (str_of query)))) f5;
          f7 = filter_if (truthy_str query \<and> str_in ''non-apple'' (lower (str_of query)))
                 (\<lambda>p. \<not> str_in ''apple'' (lower (p_brand p))) f6;
          filtered_products = sort_catalog f7
      in (filtered_products,
          if truthy_str cat \<or> truthy_int max_price \<or> truthy_str brand \<or>
             truthy_str color \<or> truthy_str platform \<or> truthy_str query
          then products else filtered_products))"

definition get_product_by_id :: "product list \<Rightarrow> int \<Rightarrow> product option" where
  "get_product_by_id products product_id =
     (if 0 \<le> product_id \<and> product_id < int (length products)
      then Some (products ! nat product_id) else None)"

section \<open>ShoppingQueryProcessor (shopping\_processor.py)\<close>

definition product_text :: "product \<Rightarrow> string" where
  "product_text p =
     lower (p_name p @ '' '' @ p_description p @ '' '' @ p_brand p @ '' '' @ p_color p)"

text \<open>The score of one product, accumulated in the order of the loop body. Scores are
  rationals: the arithmetic of the source is read as exact.\<close>

definition score :: "string \<Rightarrow> analysis \<Rightarrow> product \<Rightarrow> rat" where
  "score query an p =
     (let query_lower = lower query;
          s1 = fold (\<lambda>keyword s. if str_in keyword (product_text p) then s + 2 else s)
                 (str_split query_lower) 0;
          s2 = fold (\<lambda>color s. if str_in color query_lower \<and> str_in color (lower (p_color p))
                               then s + 3 else s)
                 COLOR_KEYWORDS s1;
          s3 = (if str_in (lower (p_brand p)) query_lower then s2 + 2 else s2);
          s4 = (if truthy_int (max_budget an)
                then (let price_ratio = of_int (p_price p) / of_int (int_of (max_budget an))
                      in if price_ratio \<le> 1 then s3 + (1 - price_ratio) * 2 else s3 - 5)
                else s3);
          s5 = s4 + p_rating p * (3 / 2);
          s6 = (if truthy_str (category an) \<and> p_category p = str_of (category an)
                then s5 + 1 else s5)
      in s6)"

text \<open>\<open>scored_products.sort(key=lambda x: x[0], reverse=True)\<close>: a stable sort, products of
  equal score keep their order.\<close>

definition filter_and_rank :: "product list \<Rightarrow> string \<Rightarrow> analysis \<Rightarrow> product list" where
  "filter_and_rank products query an =
     (if products = [] then []
      else map snd (sort_key (\<lambda>x. - fst x) (map (\<lambda>p. (score query an p, p)) products)))"

text \<open>The two shapes of the dictionary that \<open>process_query\<close> returns.\<close>

datatype response =
    Success (r_query: string) (r_analysis: analysis) (r_products: "product list")
            (r_total_found: nat) (r_category: "string option") (r_max_budget: "int option")
  | Failure (r_error: string) (r_query: string) (r_products: "product list")

text \<open>
  \<open>process_query\<close> with its three stages as parameters: the analyzer, the repository's search
  (which works on the repository state \<open>db\<close>) and the ranking. Each stage returns a value or
  raises. The body of the \<open>try\<close> stops at the first stage that raises, and the \<open>except\<close>
  clause turns the exception into the failure response.
\<close>

definition run_query ::
  "(string \<Rightarrow> exn + analysis) \<Rightarrow>
   ('db \<Rightarrow> string option \<Rightarrow> string option \<Rightarrow> int option \<Rightarrow> (exn + product list) \<times> 'db) \<Rightarrow>
   (product list \<Rightarrow> string \<Rightarrow> analysis \<Rightarrow> exn + product list) \<Rightarrow>
   'db \<Rightarrow> string \<Rightarrow> response \<times> 'db" where
  "run_query analyze search rank db user_query =
     (case analyze user_query of
        Inl e \<Rightarrow> (Failure (exn_str e) user_query [], db)
      | Inr an \<Rightarrow>
          (case search db (Some user_query) (category an) (max_budget an) of
             (Inl e, db') \<Rightarrow> (Failure (exn_str e) user_query [], db')
           | (Inr search_results, db') \<Rightarrow>
               (case rank search_results user_query an of
                  Inl e \<Rightarrow> (Failure (exn_str e) user_query [], db')
                | Inr filtered_results \<Rightarrow>
                    (Success user_query an (take 3 filtered_results) (length search_results)
                       (category an) (max_budget an), db'))))"

text \<open>\<open>process_query\<close> with the stages of the repository: on a catalog of complete products
  the search and the ranking do not raise.\<close>

definition process_query :: "product list \<Rightarrow> string \<Rightarrow> response \<times> product list" where
  "process_query db user_query =
     run_query analyze_budget
       (\<lambda>d q c m. case search_products d q c m None None None of (r, d') \<Rightarrow> (Inr r, d'))
       (\<lambda>ps q an. Inr (filter_and_rank ps q an))
       db user_query"

section \<open>Notions used to state the properties\<close>

text \<open>A whole-number amount as the patterns read it, \<open>\d+(?:,\d+)*\<close>: a run of digits, then
  any number of groups of a comma and a run of digits.\<close>

inductive amount_text :: "string \<Rightarrow> bool" where
  digits: "ds \<noteq> [] \<Longrightarrow> \<forall>c\<in>set ds. isdigit c \<Longrightarrow> amount_text ds"
| group: "amount_text a \<Longrightarrow> ds \<noteq> [] \<Longrightarrow> \<forall>c\<in>set ds. isdigit c \<Longrightarrow>
          amount_text (a @ '','' @ ds)"

text \<open>The text after an amount does not continue it: it does not start with a digit, nor
  with a comma or a full stop that a digit follows.\<close>

definition amount_end :: "string \<Rightarrow> bool" where
  "amount_end post =
     (case post of
        [] \<Rightarrow> True
      | c # r \<Rightarrow> \<not> isdigit c \<and>
                 (if c = CHR '','' \<or> c = CHR ''.''
                  then (case r of [] \<Rightarrow> True | d # _ \<Rightarrow> \<not> isdigit d) else True))"

text \<open>The catalog that \<open>_load_mock_data\<close> falls back to when the data file is missing.\<close>

definition nike :: product where
  "nike = \<lparr>p_name = ''Red Nike Air Max'', p_price = 2499, p_rating = 9 / 2,
     p_image_url = ''https://via.placeholder.com/300x200/ff0000/ffffff?text=Nike+Red'',
     p_description = ''Comfortable running shoes with Air Max cushioning'',
     p_buy_link = ''https://amazon.in/nike-red'', p_category = ''apparel'', p_brand = ''Nike'',
     p_color = ''red'', p_platform = ''Amazon''\<rparr>"

definition fallback_catalog :: "product list" where
  "fallback_catalog = [nike]"

text \<open>Two more products, for the examples.\<close>

definition macbook :: product where
  "macbook = \<lparr>p_name = ''MacBook Air'', p_price = 99000, p_rating = 5,
     p_image_url = ''https://example.com/macbook.png'', p_description = ''Thin laptop'',
     p_buy_link = ''https://example.com/macbook'',
     p_category = ''electronics'', p_brand = ''Apple'', p_color = ''silver'',
     p_platform = ''Amazon''\<rparr>"

definition dell :: product where
  "dell = \<lparr>p_name = ''Dell XPS'', p_price = 89000, p_rating = 4,
     p_image_url = ''https://example.com/xps.png'', p_description = ''Laptop'',
     p_buy_link = ''https://example.com/xps'',
     p_category = ''electronics'', p_brand = ''Dell'', p_color = ''navy blue'',
     p_platform = ''Amazon''\<rparr>"

section \<open>Rounding to a double\<close>

lemma powi_nat: "0 \<le> a \<Longrightarrow> (2::rat) powi a = 2 ^ nat a"
  by (simp add: power_int_def)

lemma float_round_0: "float_round 0 = Finite 0"
  by (simp add: float_round_def)

lemma round_half_even_of_int: "round_half_even (of_int m) = m"
  by (simp add: round_half_even_def)

lemma round_half_even_ge: "\<lfloor>x\<rfloor> \<le> round_half_even x"
  by (simp add: round_half_even_def Let_def)

text \<open>\<open>floor_log2\<close> is the binary exponent of a positive rational.\<close>

lemma floor_log2_bounds:
  assumes "0 < v"
  shows "2 powi (floor_log2 v) \<le> v" and "v < 2 powi (floor_log2 v + 1)"
proof -
  obtain p q where pq: "quotient_of v = (p, q)"
    by (cases "quotient_of v")
  have q: "0 < q" using pq quotient_of_denom_pos by blast
  have v: "v = of_int p / of_int q" using pq quotient_of_div by blast
  have p: "0 < p" using assms q v by (simp add: zero_less_divide_iff)
  define a where "a = bitlen p"
  define b where "b = bitlen q"
  have a1: "1 \<le> a" using p by (simp add: a_def bitlen_alt_def)
  have b1: "1 \<le> b" using q by (simp add: b_def bitlen_alt_def)
  have "2 ^ nat (a - 1) \<le> p" "p < 2 ^ nat a"
    using bitlen_bounds [OF p] by (simp_all add: a_def)
  then have pa: "(2::rat) powi (a - 1) \<le> of_int p" "(of_int p :: rat) < 2 powi a"
    using a1 by (simp_all add: powi_nat numeral_power_le_of_int_cancel_iff
        of_int_less_numeral_power_cancel_iff)
  have "2 ^ nat (b - 1) \<le> q" "q < 2 ^ nat b"
    using bitlen_bounds [OF q] by (simp_all add: b_def)
  then have qb: "(2::rat) powi (b - 1) \<le> of_int q" "(of_int q :: rat) < 2 powi b"
    using b1 by (simp_all add: powi_nat numeral_power_le_of_int_cancel_iff
        of_int_less_numeral_power_cancel_iff)
  have "v < 2 powi a / 2 powi (b - 1)"
    unfolding v using p pa(2) qb(1) by (intro frac_less) simp_all
  also have "\<dots> = 2 powi (a - b + 1)"
    using power_int_diff [of "2::rat" a "b - 1"] by (simp add: algebra_simps)
  finally have up: "v < 2 powi (a - b + 1)" .
  have "2 powi (a - 1) / 2 powi b < v"
    unfolding v using q pa(1) qb(2) by (intro frac_less2) simp_all
  moreover have "(2::rat) powi (a - 1) / 2 powi b = 2 powi (a - b - 1)"
    using power_int_diff [of "2::rat" "a - 1" b] by (simp add: algebra_simps)
  ultimately have lo: "2 powi (a - b - 1) < v" by simp
  show "2 powi (floor_log2 v) \<le> v"
    using lo by (simp add: floor_log2_def pq a_def b_def Let_def)
  show "v < 2 powi (floor_log2 v + 1)"
    using up by (simp add: floor_log2_def pq a_def b_def Let_def not_le)
qed

lemma floor_log2_of_int_le:
  assumes "0 < n" "n < 2 ^ 53"
  shows "floor_log2 (of_int n) \<le> 52"
proof -
  have "bitlen n \<le> 53"
    using assms by (simp add: bitlen_le_iff_power)
  moreover have "bitlen 1 = 1"
    by (simp add: bitlen_alt_def)
  ultimately show ?thesis
    by (simp add: floor_log2_def Let_def)
qed

text \<open>Whole numbers below \<open>2 ^ 53\<close> are doubles: converting them is exact.\<close>

lemma float_round_exact:
  assumes "0 \<le> n" "n < 2 ^ 53"
  shows "float_round (of_int n) = Finite (of_int n)"
proof (cases "n = 0")
  case True
  then show ?thesis by (simp add: float_round_def)
next
  case False
  with assms have pos: "0 < n" by simp
  define e where "e = max (floor_log2 (of_int n)) (- 1022)"
  define k where "k = nat (52 - e)"
  have e52: "e \<le> 52"
    using floor_log2_of_int_le [OF pos assms(2)] by (simp add: e_def)
  have ulp: "(2::rat) powi (e - 52) = 1 / 2 ^ k"
    using e52 by (cases "e = 52")
      (simp_all add: power_int_def k_def power_one_over inverse_eq_divide)
  have q: "(of_int n :: rat) / 2 powi (e - 52) = of_int (n * 2 ^ k)"
    by (simp add: ulp)
  have r: "of_int (round_half_even ((of_int n :: rat) / 2 powi (e - 52))) * (2::rat) powi (e - 52)
            = of_int n"
    unfolding q round_half_even_of_int by (simp add: ulp)
  have "(of_int n :: rat) < 2 ^ 53"
    using assms(2) by (metis of_int_less_numeral_power_cancel_iff)
  also have "\<dots> \<le> 2 ^ 1024"
    by (rule power_increasing) simp_all
  finally have small: "\<not> (2::rat) ^ 1024 \<le> of_int n"
    by simp
  show ?thesis
    using False small r by (simp add: float_round_def Let_def e_def [symmetric])
qed

text \<open>From \<open>2 ^ 1024\<close> on, the conversion overflows.\<close>

lemma float_round_overflow:
  assumes "2 ^ 1024 \<le> v"
  shows "float_round v = Infinity"
proof -
  have pos: "0 < v"
    using assms by (meson less_le_trans zero_less_numeral zero_less_power)
  define e where "e = floor_log2 v"
  have lo: "2 powi e \<le> v" and up: "v < 2 powi (e + 1)"
    using floor_log2_bounds [OF pos] by (simp_all add: e_def)
  have e1024: "1024 \<le> e"
  proof (rule ccontr)
    assume "\<not> 1024 \<le> e"
    then have "e + 1 \<le> 1024" by simp
    then have "(2::rat) powi (e + 1) \<le> 2 powi 1024"
      by (intro power_int_increasing) simp_all
    with assms up show False by (simp add: powi_nat)
  qed
  define ulp where "ulp = (2::rat) powi (e - 52)"
  have ulp_pos: "0 < ulp" by (simp add: ulp_def)
  have "(2::rat) powi 52 * ulp = 2 powi e"
    unfolding ulp_def using power_int_add [of "2::rat" 52 "e - 52"] by simp
  then have "(2::rat) ^ 52 \<le> v / ulp"
    using lo ulp_pos by (simp add: pos_le_divide_eq powi_nat)
  then have "2 ^ 52 \<le> \<lfloor>v / ulp\<rfloor>"
    by (simp add: le_floor_iff)
  then have "2 ^ 52 \<le> round_half_even (v / ulp)"
    using round_half_even_ge [of "v / ulp"] by linarith
  then have "(2::rat) ^ 52 \<le> of_int (round_half_even (v / ulp))"
    by (metis numeral_power_le_of_int_cancel_iff)
  then have "(2::rat) ^ 52 * ulp \<le> of_int (round_half_even (v / ulp)) * ulp"
    using ulp_pos by simp
  moreover have "(2::rat) ^ 52 * ulp = 2 powi e"
    unfolding ulp_def using power_int_add [of "2::rat" 52 "e - 52"] by (simp add: powi_nat)
  moreover have "(2::rat) ^ 1024 \<le> 2 powi e"
    using e1024 power_int_increasing [of 1024 e "2::rat"] by (simp add: powi_nat)
  ultimately have "(2::rat) ^ 1024 \<le> of_int (round_half_even (v / ulp)) * ulp"
    by linarith
  moreover have "max e (- 1022) = e" using e1024 by simp
  ultimately show ?thesis
    using pos by (simp add: float_round_def Let_def e_def [symmetric] ulp_def)
qed

section \<open>Strings\<close>

lemma str_in_sublist: "str_in x y = sublist x y"
  by (induction y) (auto simp: sublist_Cons_right)

lemma str_in_append: "str_in x (a @ x @ b)"
  by (simp add: str_in_sublist)

lemma str_in_char: "str_in [c] s = (c \<in> set s)"
  by (induction s) auto

lemma lower_char_idem: "lower_char (lower_char c) = lower_char c"
  by (simp add: lower_char_def)

lemma lower_lower: "lower (lower s) = lower s"
  by (simp add: lower_def lower_char_idem)

lemma lower_append: "lower (a @ b) = lower a @ lower b"
  by (simp add: lower_def)

lemma lower_rev: "lower (rev s) = rev (lower s)"
  by (simp add: lower_def rev_map)

lemma isspace_lower_char: "isspace (lower_char c) = isspace c"
  by (simp add: lower_char_def isspace_def)

lemma lower_dropWhile: "lower (dropWhile isspace s) = dropWhile isspace (lower s)"
  by (simp add: lower_def dropWhile_map comp_def isspace_lower_char)

lemma lower_strip: "lower (strip s) = strip (lower s)"
  by (simp add: strip_def lower_dropWhile lower_rev)

lemma lower_strip_lower: "lower (strip (lower s)) = strip (lower s)"
  by (simp add: lower_strip lower_lower)

lemma in_set_dropWhile: "c \<in> set xs \<Longrightarrow> \<not> P c \<Longrightarrow> c \<in> set (dropWhile P xs)"
  by (induction xs) auto

lemma set_strip: "\<not> isspace c \<Longrightarrow> c \<in> set (strip s) \<longleftrightarrow> c \<in> set s"
  unfolding strip_def
  by (metis in_set_dropWhile set_dropWhileD set_rev)

lemma isdigit_cases:
  "isdigit c \<Longrightarrow> c = CHR ''0'' \<or> c = CHR ''1'' \<or> c = CHR ''2'' \<or> c = CHR ''3'' \<or> c = CHR ''4'' \<or>
     c = CHR ''5'' \<or> c = CHR ''6'' \<or> c = CHR ''7'' \<or> c = CHR ''8'' \<or> c = CHR ''9''"
  by (simp add: isdigit_def)

lemma isdigit_lower_char: "isdigit c \<Longrightarrow> lower_char c = c"
  by (drule isdigit_cases, elim disjE) (simp_all add: lower_char_def)

lemma isdigit_not_space: "isdigit c \<Longrightarrow> \<not> isspace c"
  by (drule isdigit_cases, elim disjE) (simp_all add: isspace_def)

lemma isdigit_not_comma: "isdigit c \<Longrightarrow> c \<noteq> CHR '',''"
  by (drule isdigit_cases, elim disjE) simp_all

lemma isdigit_not_dot: "isdigit c \<Longrightarrow> c \<noteq> CHR ''.''"
  by (drule isdigit_cases, elim disjE) simp_all

lemma isdigit_not_r: "isdigit c \<Longrightarrow> c \<noteq> CHR ''r''"
  by (drule isdigit_cases, elim disjE) simp_all

lemma isdigit_not_rupee: "isdigit c \<Longrightarrow> c \<noteq> CHR 0xE2"
  by (drule isdigit_cases, elim disjE) simp_all

section \<open>Scanning an amount\<close>

lemma amount_tail_digits: "\<forall>c\<in>set ds. isdigit c \<Longrightarrow> amount_tail (ds @ r) = ds @ amount_tail r"
  by (induction ds) simp_all

lemma amount_tail_group:
  assumes "ds \<noteq> []" "\<forall>c\<in>set ds. isdigit c"
  shows "amount_tail ('','' @ ds @ r) = '','' @ ds @ amount_tail r"
proof -
  obtain d ds' where ds: "ds = d # ds'" using assms(1) by (cases ds) auto
  have "\<not> isdigit CHR '',''" by (simp add: isdigit_def)
  moreover have "isdigit d" using assms(2) ds by simp
  ultimately have "amount_tail ('','' @ ds @ r) = CHR '','' # amount_tail (ds @ r)"
    by (simp add: ds)
  then show ?thesis using amount_tail_digits [OF assms(2)] by simp
qed

lemma amount_tail_end: "amount_end post \<Longrightarrow> amount_tail post = []"
  by (cases post) (auto simp: amount_end_def split: list.splits if_splits)

lemma fraction_end: "amount_end post \<Longrightarrow> fraction post = []"
  by (auto simp: amount_end_def fraction_def split: list.splits if_splits)

lemma amount_text_scan:
  "amount_text a \<Longrightarrow> a \<noteq> [] \<and> isdigit (hd a) \<and> (\<forall>r. amount_tail (tl a @ r) = tl a @ amount_tail r)"
proof (induction rule: amount_text.induct)
  case (digits ds)
  obtain d ds' where ds: "ds = d # ds'" using digits(1) by (cases ds) auto
  have "\<forall>c\<in>set ds'. isdigit c" using digits(2) ds by simp
  then show ?case using digits(2) ds by (simp add: amount_tail_digits)
next
  case (group a ds)
  have ne: "a \<noteq> []" using group.IH by simp
  have scan: "\<And>r. amount_tail (tl a @ r) = tl a @ amount_tail r" using group.IH by simp
  have "amount_tail (tl (a @ '','' @ ds) @ r) = tl (a @ '','' @ ds) @ amount_tail r" for r
  proof -
    have "amount_tail (tl (a @ '','' @ ds) @ r) = amount_tail (tl a @ ('','' @ ds @ r))"
      using ne by simp
    also have "\<dots> = tl a @ amount_tail ('','' @ ds @ r)"
      by (rule scan)
    also have "\<dots> = tl a @ '','' @ ds @ amount_tail r"
      using amount_tail_group [OF group.hyps(2,3)] by simp
    finally show ?thesis using ne by simp
  qed
  moreover have "isdigit (hd (a @ '','' @ ds))" using ne group.IH by simp
  ultimately show ?case by simp
qed

lemma int_amount_text:
  assumes "amount_text a" "amount_end post"
  shows "int_amount (a @ post) = Some (a, post)"
proof -
  obtain c t where a: "a = c # t" "isdigit c" and t: "\<And>r. amount_tail (t @ r) = t @ amount_tail r"
    using amount_text_scan [OF assms(1)] by (cases a) auto
  show ?thesis
    by (simp add: int_amount_def a t amount_tail_end [OF assms(2)])
qed

lemma dec_amount_text:
  "amount_text a \<Longrightarrow> amount_end post \<Longrightarrow> dec_amount (a @ post) = Some a"
  by (simp add: dec_amount_def int_amount_text fraction_end)

lemma lead_under:
  assumes "isdigit c"
  shows "lead [''under'', ''below'', ''less than'', ''upto''] (''under '' @ c # t) = Some (c # t)"
proof -
  have sp: "\<not> isspace c" using assms by (rule isdigit_not_space)
  have cur: "currency (c # t) = c # t"
    using isdigit_not_r [OF assms] isdigit_not_rupee [OF assms] isdigit_lower_char [OF assms]
    by (simp add: currency_def lit_def lower_def rupee_def)
  have "first_lit [''under'', ''below'', ''less than'', ''upto''] (''under '' @ c # t) = Some ('' '' @ c # t)"
    by (simp add: lit_def lower_def lower_char_def)
  moreover have "spaces1 ('' '' @ c # t) = Some (c # t)"
    using sp by (simp add: spaces1_def isspace_def)
  ultimately show ?thesis
    using sp by (simp add: lead_def cur)
qed

lemma match_under_amount:
  assumes "amount_text a" "amount_end post"
  shows "match_under (''under '' @ a @ post) = Some a"
proof -
  obtain c t where a: "a = c # t" "isdigit c"
    using amount_text_scan [OF assms(1)] by (cases a) auto
  have "lead [''under'', ''below'', ''less than'', ''upto''] (''under '' @ c # (t @ post)) = Some (c # t @ post)"
    using lead_under [OF a(2)] by simp
  then have "lead [''under'', ''below'', ''less than'', ''upto''] (''under '' @ a @ post) = Some (a @ post)"
    by (simp add: a)
  then show ?thesis
    using dec_amount_text [OF assms] by (simp add: match_under_def)
qed

lemma re_search_here: "m s = Some g \<Longrightarrow> re_search m s = Some g"
  by (cases s) simp_all

lemma re_search_skip:
  "\<forall>i<length pre. m (drop i (pre @ s)) = None \<Longrightarrow> re_search m (pre @ s) = re_search m s"
proof (induction pre)
  case Nil
  then show ?case by simp
next
  case (Cons c pre)
  have "m (c # pre @ s) = None" using Cons.prems by force
  moreover have "\<forall>i<length pre. m (drop i (pre @ s)) = None"
  proof (intro allI impI)
    fix i assume "i < length pre"
    then have "m (drop (Suc i) ((c # pre) @ s)) = None" using Cons.prems by (metis Suc_less_eq length_Cons)
    then show "m (drop i (pre @ s)) = None" by simp
  qed
  ultimately show ?case using Cons.IH by simp
qed

section \<open>The analyzer on particular queries\<close>

lemma extract_price_under_0: "extract_price ''under 0'' = Inr (Some 0)"
proof -
  have k: "any_in budget_keywords (lower ''under 0'')" by code_simp
  have m: "re_search match_under ''under 0'' = Some ''0''" by code_simp
  have f: "py_float ''0'' = Finite 0"
    by (simp add: py_float_def decimal_value_def dec_int_def digit_val_def float_round_def)
  show ?thesis
    by (simp add: extract_price_def k m price_of_def f scale_k_def py_int_def
        float_round_0 del: re_search.simps)
qed

lemma extract_price_laptop: "extract_price ''laptop'' = Inr None"
proof -
  have k: "\<not> any_in budget_keywords (lower ''laptop'')" by code_simp
  show ?thesis by (simp add: extract_price_def k)
qed

lemma analyze_budget_laptop:
  "analyze_budget ''laptop'' =
     Inr \<lparr>category = Some ''electronics'', max_budget = Some 250000, budget_type = ''high'',
          specific_budget = None, original_query = ''laptop''\<rparr>"
proof -
  have s: "strip (lower ''laptop'') = ''laptop''" by code_simp
  have c: "detect_category ''laptop'' = Some ''electronics''" by code_simp
  have t: "detect_budget_type ''laptop'' = Inr ''high''" by code_simp
  have d: "default_budget (Some ''electronics'') ''high'' = 250000" by code_simp
  show ?thesis
    by (simp add: analyze_budget_def s c t extract_price_laptop truthy_int_def d)
qed

section \<open>The invariant of the analysis\<close>

text \<open>
  Claim C2: in the analysis that \<open>analyze_budget\<close> returns, a specific budget that is set
  comes with the budget type \<open>specific\<close> and is the maximum budget; otherwise the maximum
  budget is the default of the tables.

  The source tests the extracted price by its truth value, in \<open>analyze_budget\<close> and in
  \<open>_detect_budget_type\<close>, so an extracted price of zero is taken for no price. On the query
  \<open>under 0\<close> the analysis reports the specific budget \<open>0\<close> together with the budget type
  \<open>low\<close> and the default maximum budget \<open>50000\<close>.
\<close>

theorem analyze_budget_zero_price:
  "analyze_budget ''under 0'' =
     Inr \<lparr>category = None, max_budget = Some 50000, budget_type = ''low'',
          specific_budget = Some 0, original_query = ''under 0''\<rparr>"
proof -
  have s: "strip (lower ''under 0'') = ''under 0''" by code_simp
  have c: "detect_category ''under 0'' = None" by code_simp
  have t: "find (\<lambda>(budget_key, keywords). any_in keywords ''under 0'') BUDGET_KEYWORDS = None"
    by code_simp
  show ?thesis
    by (simp add: analyze_budget_def s c detect_budget_type_def extract_price_under_0
        truthy_int_def t default_budget_def)
qed

section \<open>Budget tiers\<close>

lemma any_in_sublist: "any_in kws text = (\<exists>kw\<in>set kws. sublist kw text)"
  by (simp add: any_in_def list_ex_iff str_in_sublist)

lemma find_first:
  assumes "i < length xs" "P (xs ! i)" "\<forall>j<i. \<not> P (xs ! j)"
  shows "find P xs = Some (xs ! i)"
  using assms by (auto simp: find_Some_iff)

lemma detect_budget_type_first_tier:
  assumes "extract_price q = Inr None"
    and "i < length BUDGET_KEYWORDS"
    and "\<exists>kw\<in>set (snd (BUDGET_KEYWORDS ! i)). sublist kw q"
    and "\<forall>j<i. \<forall>kw\<in>set (snd (BUDGET_KEYWORDS ! j)). \<not> sublist kw q"
  shows "detect_budget_type q = Inr (fst (BUDGET_KEYWORDS ! i))"
proof -
  let ?P = "\<lambda>(budget_key, keywords). any_in keywords q"
  have "?P (BUDGET_KEYWORDS ! i)"
    using assms(3) by (simp add: any_in_sublist case_prod_beta)
  moreover have "\<forall>j<i. \<not> ?P (BUDGET_KEYWORDS ! j)"
    using assms(4) by (simp add: any_in_sublist case_prod_beta)
  ultimately have "find ?P BUDGET_KEYWORDS = Some (BUDGET_KEYWORDS ! i)"
    using assms(2) by (intro find_first) auto
  then show ?thesis
    by (simp add: detect_budget_type_def assms(1) truthy_int_def case_prod_beta)
qed

text \<open>
  Claim C9: the keywords of the budget tiers are matched as substrings of the whole query,
  not as words. The tiers are tried in the order low, medium, high, and for a query with no
  explicit price the first tier one of whose keywords occurs in the query is the budget type.
  So the query \<open>laptop\<close>, in which the high-tier keyword \<open>top\<close> occurs, has the budget
  type \<open>high\<close> and the maximum budget \<open>250000\<close>.
\<close>

theorem tier_keywords_match_as_substrings:
  "map fst BUDGET_KEYWORDS = [''low'', ''medium'', ''high''] \<and>
   (\<forall>q i. extract_price q = Inr None \<and> i < length BUDGET_KEYWORDS \<and>
          (\<exists>kw\<in>set (snd (BUDGET_KEYWORDS ! i)). sublist kw q) \<and>
          (\<forall>j<i. \<forall>kw\<in>set (snd (BUDGET_KEYWORDS ! j)). \<not> sublist kw q) \<longrightarrow>
          detect_budget_type q = Inr (fst (BUDGET_KEYWORDS ! i))) \<and>
   ''top'' \<in> set (snd (BUDGET_KEYWORDS ! 2)) \<and> sublist ''top'' ''laptop'' \<and>
   analyze_budget ''laptop'' =
     Inr \<lparr>category = Some ''electronics'', max_budget = Some 250000, budget_type = ''high'',
          specific_budget = None, original_query = ''laptop''\<rparr>"
proof -
  have "map fst BUDGET_KEYWORDS = [''low'', ''medium'', ''high'']"
    by (simp add: BUDGET_KEYWORDS_def)
  moreover have "''top'' \<in> set (snd (BUDGET_KEYWORDS ! 2))"
    by (simp add: BUDGET_KEYWORDS_def)
  moreover have "sublist ''top'' ''laptop''"
    using str_in_sublist [of "''top''" "''laptop''"] by simp
  ultimately show ?thesis
    using detect_budget_type_first_tier analyze_budget_laptop by blast
qed

theorem tier_keywords_match_as_substrings_witness:
  "extract_price ''laptop'' = Inr None \<and> detect_budget_type ''laptop'' = Inr ''high''"
proof -
  have 1: "extract_price ''laptop'' = Inr None" by (rule extract_price_laptop)
  have 2: "(2::nat) < length BUDGET_KEYWORDS" by (simp add: BUDGET_KEYWORDS_def)
  have "sublist ''top'' ''laptop''"
    using str_in_sublist [of "''top''" "''laptop''"] by simp
  moreover have "''top'' \<in> set (snd (BUDGET_KEYWORDS ! 2))"
    by (simp add: BUDGET_KEYWORDS_def)
  ultimately have 3: "\<exists>kw\<in>set (snd (BUDGET_KEYWORDS ! 2)). sublist kw ''laptop''"
    by blast
  have "\<not> any_in (snd (BUDGET_KEYWORDS ! 0)) ''laptop''" by code_simp
  moreover have "\<not> any_in (snd (BUDGET_KEYWORDS ! 1)) ''laptop''" by code_simp
  ultimately have 4: "\<forall>j<2. \<forall>kw\<in>set (snd (BUDGET_KEYWORDS ! j)). \<not> sublist kw ''laptop''"
    by (auto simp: any_in_sublist less_Suc_eq numeral_2_eq_2)
  have "fst (BUDGET_KEYWORDS ! 2) = ''high''" by (simp add: BUDGET_KEYWORDS_def)
  with tier_keywords_match_as_substrings 1 2 3 4
  have "detect_budget_type ''laptop'' = Inr ''high''"
    by metis
  with 1 show ?thesis by simp
qed

section \<open>The repository's search\<close>

lemma set_sort_catalog: "set (sort_catalog xs) = set xs"
  by (simp add: sort_catalog_def)

lemma mset_sort_catalog: "mset (sort_catalog xs) = mset xs"
  by (simp add: sort_catalog_def)

lemma length_sort_catalog: "length (sort_catalog xs) = length xs"
  by (simp add: sort_catalog_def)

lemma sort_catalog_order:
  "sorted_wrt (\<lambda>a b. p_rating b < p_rating a \<or> (p_rating a = p_rating b \<and> p_price a \<le> p_price b))
     (sort_catalog xs)"
proof -
  have "sorted (map (\<lambda>x. (- p_rating x, p_price x)) (sort_catalog xs))"
    by (simp add: sort_catalog_def)
  then have "sorted_wrt (\<lambda>a b. (- p_rating a, p_price a) \<le> (- p_rating b, p_price b)) (sort_catalog xs)"
    by (simp add: sorted_map)
  then show ?thesis
    by (rule sorted_wrt_mono_rel [rotated]) (auto simp: less_eq_prod_def)
qed

lemma set_filter_if: "set (filter_if c P xs) \<subseteq> set xs"
  by (simp add: filter_if_def)

lemma search_products_no_criteria:
  assumes "\<not> truthy_str query" "\<not> truthy_str cat" "\<not> truthy_int max_price"
    "\<not> truthy_str brand" "\<not> truthy_str color" "\<not> truthy_str platform"
  shows "search_products db query cat max_price brand color platform =
           (sort_catalog db, sort_catalog db)"
  using assms by (simp add: search_products_def filter_if_def Let_def)

lemma search_products_keeps_catalog:
  assumes "truthy_str query \<or> truthy_str cat \<or> truthy_int max_price \<or>
    truthy_str brand \<or> truthy_str color \<or> truthy_str platform"
  shows "snd (search_products db query cat max_price brand color platform) = db"
  using assms by (auto simp: search_products_def Let_def)

lemma in_filter_ifD: "x \<in> set (filter_if c P xs) \<Longrightarrow> x \<in> set xs"
  by (auto simp: filter_if_def split: if_splits)

lemma search_products_price_le:
  assumes "C \<noteq> 0" "p \<in> set (fst (search_products db query cat (Some C) brand color platform))"
  shows "p_price p \<le> C"
proof -
  let ?f1 = "filter_if (truthy_str cat) (\<lambda>p. p_category p = str_of cat) db"
  from assms(2)
  have "p \<in> set (filter_if (truthy_int (Some C)) (\<lambda>p. p_price p \<le> int_of (Some C)) ?f1)"
    unfolding search_products_def Let_def fst_conv set_sort_catalog
    by (blast dest: in_filter_ifD)
  then show ?thesis
    using assms(1) by (simp add: filter_if_def truthy_int_def int_of_def)
qed

lemma search_products_non_apple:
  assumes "str_in ''non-apple'' (lower q)"
    and "p \<in> set (fst (search_products db (Some q) cat max_price brand color platform))"
  shows "\<not> str_in ''apple'' (lower (p_brand p))"
proof -
  have "q \<noteq> []" using assms(1) by (auto simp: lower_def)
  then have t: "truthy_str (Some q) \<and> str_in ''non-apple'' (lower (str_of (Some q)))"
    using assms(1) by (simp add: truthy_str_def str_of_def)
  from assms(2) show ?thesis
    unfolding search_products_def Let_def fst_conv set_sort_catalog
    by (simp add: t filter_if_def)
qed

lemma sort_catalog_dell_macbook: "sort_catalog [dell, macbook] = [macbook, dell]"
  by (simp add: sort_catalog_def dell_def macbook_def less_eq_prod_def)

text \<open>
  Claim C10: a call of \<open>search_products\<close> with every criterion absent (each argument
  \<open>None\<close>, empty or zero) sorts the repository's stored list in place, by descending rating
  and then ascending price: the stored list afterwards is the list returned, it is in that
  order and it has the products of the stored list before. \<open>get_product_by_id\<close> afterwards
  indexes the sorted list.
\<close>

theorem search_without_criteria_sorts_stored_catalog:
  assumes "\<not> truthy_str query" "\<not> truthy_str cat" "\<not> truthy_int max_price"
    "\<not> truthy_str brand" "\<not> truthy_str color" "\<not> truthy_str platform"
  shows "snd (search_products db query cat max_price brand color platform) = sort_catalog db \<and>
         fst (search_products db query cat max_price brand color platform) = sort_catalog db \<and>
         sorted_wrt (\<lambda>a b. p_rating b < p_rating a \<or>
                            (p_rating a = p_rating b \<and> p_price a \<le> p_price b))
           (sort_catalog db) \<and>
         mset (sort_catalog db) = mset db \<and>
         get_product_by_id (snd (search_products db query cat max_price brand color platform)) i =
           (if 0 \<le> i \<and> i < int (length db) then Some (sort_catalog db ! nat i) else None)"
  using search_products_no_criteria [OF assms, of db]
  by (simp add: sort_catalog_order mset_sort_catalog get_product_by_id_def length_sort_catalog)


theorem search_without_criteria_sorts_stored_catalog_witness:
  "get_product_by_id [dell, macbook] 0 = Some dell \<and>
   get_product_by_id (snd (search_products [dell, macbook] None (Some []) (Some 0) None None None)) 0
     = Some macbook"
proof -
  have "snd (search_products [dell, macbook] None (Some []) (Some 0) None None None)
          = sort_catalog [dell, macbook]"
    using search_without_criteria_sorts_stored_catalog
      [of None "Some []" "Some 0" None None None "[dell, macbook]" 0]
    by (simp add: truthy_str_def truthy_int_def)
  then show ?thesis
    by (simp add: sort_catalog_dell_macbook get_product_by_id_def)
qed

text \<open>
  Claim C6: every product that \<open>search_products\<close> returns for the ceiling \<open>C\<close> has a price
  of at most \<open>C\<close>.

  The source tests the ceiling by its truth value, \<open>if max_price:\<close>, so the ceiling \<open>0\<close>
  filters nothing (\<open>search_products_price_le\<close> is the claim for every other ceiling). On
  the fallback catalog the search with ceiling \<open>0\<close> returns the product of price \<open>2499\<close>.
\<close>

theorem search_products_zero_ceiling:
  "fst (search_products fallback_catalog None None (Some 0) None None None) = [nike] \<and>
   p_price nike = 2499"
proof -
  have "fst (search_products fallback_catalog None None (Some 0) None None None) = [nike]"
    by (simp add: search_products_def filter_if_def truthy_str_def truthy_int_def
        fallback_catalog_def sort_catalog_def Let_def)
  moreover have "p_price nike = 2499"
    by (simp add: nike_def)
  ultimately show ?thesis by simp
qed

end
